theory Spec2Isabelle
  imports Main
begin

section \<open>Python strings and integers\<close>

text \<open>
  A Python \<open>str\<close> is modelled as a \<open>string\<close>, one \<open>char\<close> per code point; the model
  covers the code points 0 to 255. The character classes below are those of Python for
  that range: \<open>str.isspace\<close> (which \<open>strip\<close> and \<open>rstrip\<close> use), the decimal digits
  that \<open>int\<close> and the regular expression class \<open>\d\<close> accept, and \<open>str.isdigit\<close>, which
  also accepts the superscript digits U+00B2, U+00B3 and U+00B9. The interpreter's
  configurable limit on the length of integer/string conversions is not part of the model.
\<close>

definition isspace :: "char \<Rightarrow> bool" where
  "isspace c = (let n = (of_char c :: nat) in
     (9 \<le> n \<and> n \<le> 13) \<or> (28 \<le> n \<and> n \<le> 32) \<or> n = 133 \<or> n = 160)"

definition isdecimal :: "char \<Rightarrow> bool" where
  "isdecimal c = (let n = (of_char c :: nat) in 48 \<le> n \<and> n \<le> 57)"

definition isdigit_char :: "char \<Rightarrow> bool" where
  "isdigit_char c = (let n = (of_char c :: nat) in
     (48 \<le> n \<and> n \<le> 57) \<or> n = 178 \<or> n = 179 \<or> n = 185)"

definition lstrip :: "string \<Rightarrow> string" where
  "lstrip s = dropWhile isspace s"

definition rstrip :: "string \<Rightarrow> string" where
  "rstrip s = rev (dropWhile isspace (rev s))"

definition strip :: "string \<Rightarrow> string" where
  "strip s = rstrip (lstrip s)"

definition isdigit :: "string \<Rightarrow> bool" where
  "isdigit s = (s \<noteq> [] \<and> list_all isdigit_char s)"

text \<open>\<open>s.split(sep)\<close> for a one-character separator: always at least one piece.\<close>

fun split_on :: "char \<Rightarrow> string \<Rightarrow> string list" where
  "split_on sep [] = [[]]"
| "split_on sep (c # cs) =
     (if c = sep then [] # split_on sep cs
      else (case split_on sep cs of
              [] \<Rightarrow> [[c]]
            | p # ps \<Rightarrow> (c # p) # ps))"

definition digit_val :: "char \<Rightarrow> nat" where
  "digit_val c = of_char c - 48"

definition digits_val :: "string \<Rightarrow> nat" where
  "digits_val ds = foldl (\<lambda>a c. 10 * a + digit_val c) 0 ds"

text \<open>
  The body of an integer literal as \<open>int(str)\<close> accepts it: decimal digits, with single
  underscores allowed between two digits.
\<close>

fun int_body :: "string \<Rightarrow> bool" where
  "int_body [] = False"
| "int_body [c] = isdecimal c"
| "int_body (c # d # cs) =
     (if isdecimal c then
        (if d = CHR ''_'' then cs \<noteq> [] \<and> int_body cs else int_body (d # cs))
      else False)"

datatype py_error = ValueError | TypeError | KeyError | FileExistsError

text \<open>\<open>int(s)\<close> for a string: surrounding whitespace, an optional sign, the digits.\<close>

definition int_of_str :: "string \<Rightarrow> py_error + int" where
  "int_of_str s =
     (let t = strip s;
          neg = (t \<noteq> [] \<and> hd t = CHR ''-'');
          body = (if t \<noteq> [] \<and> (hd t = CHR ''-'' \<or> hd t = CHR ''+'') then tl t else t)
      in if int_body body
         then (let v = int (digits_val (filter isdecimal body)) in Inr (if neg then - v else v))
         else Inl ValueError)"

definition digit_char :: "nat \<Rightarrow> char" where
  "digit_char n = char_of (48 + n)"

fun str_nat :: "nat \<Rightarrow> string" where
  "str_nat n = (if n < 10 then [digit_char n] else str_nat (n div 10) @ [digit_char (n mod 10)])"

declare str_nat.simps [simp del]

definition str_int :: "int \<Rightarrow> string" where
  "str_int i = (if i < 0 then CHR ''-'' # str_nat (nat (- i)) else str_nat (nat i))"

section \<open>Reading numeric fields\<close>

text \<open>
  \<open>_as_int(s, default)\<close>: \<open>int(str(s).strip())\<close>, and the default when that raises. The
  argument is the text of an entry field.
\<close>

definition as_int :: "string \<Rightarrow> int \<Rightarrow> int" where
  "as_int s dflt =
     (case int_of_str (strip s) of
        Inr v \<Rightarrow> v
      | Inl _ \<Rightarrow> dflt)"

section \<open>Configuration values\<close>

text \<open>
  The values of the configuration dictionary are Python objects. The model has the four
  scalar types that the entry fields, the check boxes and a JSON file of settings give:
  \<open>None\<close>, \<open>bool\<close>, \<open>int\<close> and \<open>str\<close>. The key \<open>next_index_by_dir\<close> of the dictionary,
  which the command builder never reads, is kept in the configuration record below.
\<close>

datatype pyval = PNone | PBool bool | PInt int | PStr string

type_synonym values_dict = "string \<rightharpoonup> pyval"

fun truthy :: "pyval \<Rightarrow> bool" where
  "truthy PNone = False"
| "truthy (PBool b) = b"
| "truthy (PInt i) = (i \<noteq> 0)"
| "truthy (PStr s) = (s \<noteq> [])"

text \<open>\<open>x or y\<close>\<close>

definition por :: "pyval \<Rightarrow> pyval \<Rightarrow> pyval" where
  "por x y = (if truthy x then x else y)"

text \<open>\<open>values.get(k)\<close>, \<open>values.get(k, d)\<close> and \<open>values[k]\<close>\<close>

definition get :: "values_dict \<Rightarrow> string \<Rightarrow> pyval" where
  "get values k = (case values k of None \<Rightarrow> PNone | Some v \<Rightarrow> v)"

definition get_default :: "values_dict \<Rightarrow> string \<Rightarrow> pyval \<Rightarrow> pyval" where
  "get_default values k d = (case values k of None \<Rightarrow> d | Some v \<Rightarrow> v)"

definition index :: "values_dict \<Rightarrow> string \<Rightarrow> py_error + pyval" where
  "index values k = (case values k of None \<Rightarrow> Inl KeyError | Some v \<Rightarrow> Inr v)"

text \<open>\<open>int(x)\<close> and \<open>str(x)\<close>\<close>

fun py_int :: "pyval \<Rightarrow> py_error + int" where
  "py_int PNone = Inl TypeError"
| "py_int (PBool b) = Inr (if b then 1 else 0)"
| "py_int (PInt i) = Inr i"
| "py_int (PStr s) = int_of_str s"

fun py_str :: "pyval \<Rightarrow> string" where
  "py_str PNone = ''None''"
| "py_str (PBool b) = (if b then ''True'' else ''False'')"
| "py_str (PInt i) = str_int i"
| "py_str (PStr s) = s"

text \<open>Sequencing of computations that may raise: the first exception ends the run.\<close>

definition bind :: "py_error + 'a \<Rightarrow> ('a \<Rightarrow> py_error + 'b) \<Rightarrow> py_error + 'b" where
  "bind r f = (case r of Inl e \<Rightarrow> Inl e | Inr x \<Rightarrow> f x)"

section \<open>Paths\<close>

text \<open>
  A \<open>pathlib.Path\<close> is modelled by its string form. \<open>Path s\<close> is \<open>str(Path(s))\<close> on a
  POSIX system: empty and \<open>.\<close> components are dropped, exactly two leading slashes are
  kept, \<open>..\<close> is left alone. \<open>joinpath a b\<close> is \<open>str(Path(a) / b)\<close>.
\<close>

definition path_root :: "string \<Rightarrow> string" where
  "path_root s =
     (if take 2 s = ''//'' \<and> take 3 s \<noteq> ''///'' then ''//''
      else if take 1 s = ''/'' then ''/''
      else [])"

definition path_parts :: "string \<Rightarrow> string list" where
  "path_parts s = filter (\<lambda>c. c \<noteq> [] \<and> c \<noteq> ''.'') (split_on CHR ''/'' s)"

fun join_with :: "string \<Rightarrow> string list \<Rightarrow> string" where
  "join_with sep [] = []"
| "join_with sep [x] = x"
| "join_with sep (x # y # ys) = x @ sep @ join_with sep (y # ys)"

definition Path :: "string \<Rightarrow> string" where
  "Path s =
     (if path_root s = [] \<and> path_parts s = [] then ''.''
      else path_root s @ join_with ''/'' (path_parts s))"

definition joinpath :: "string \<Rightarrow> string \<Rightarrow> string" where
  "joinpath a b =
     Path (if take 1 b = ''/'' then b
           else if a = [] \<or> last a = CHR ''/'' then a @ b
           else a @ ''/'' @ b)"

text \<open>
  No \<open>Path\<close> object is false: the class defines neither \<open>__bool__\<close> nor \<open>__len__\<close>.
\<close>

definition path_truthy :: "string \<Rightarrow> bool" where
  "path_truthy p = True"

section \<open>The host system\<close>

text \<open>
  The file system maps a path to what is there. A directory carries what a scan of it
  observes: the entries \<open>iterdir\<close> yields in order, each with the answer of \<open>is_dir\<close>,
  and \<open>ScanRaises\<close> at the point where \<open>iterdir\<close> or \<open>is_dir\<close> raises.
\<close>

datatype scan_item = Child string bool | ScanRaises

datatype node = Directory "scan_item list" | Regular

type_synonym filesystem = "string \<rightharpoonup> node"

text \<open>
  What the program asks of its environment: \<open>Path.expanduser\<close> and \<open>Path.resolve\<close> (on
  string forms), \<open>shutil.which\<close>, and whether \<open>subprocess.Popen\<close> starts the command
  (\<open>None\<close>) or raises (the cause).
\<close>

record os =
  expanduser :: "string \<Rightarrow> string"
  resolve :: "string \<Rightarrow> string"
  which :: "string \<Rightarrow> string option"
  popen :: "string list \<Rightarrow> string option"

definition exists :: "filesystem \<Rightarrow> string \<Rightarrow> bool" where
  "exists fs p = (fs p \<noteq> None)"

text \<open>
  \<open>p.mkdir(parents=True, exist_ok=True)\<close>: nothing to do for a directory, an error for
  another kind of file, a new empty directory otherwise. The intermediate directories it
  may create are not recorded.
\<close>

definition mkdir :: "string \<Rightarrow> filesystem \<Rightarrow> py_error + filesystem" where
  "mkdir p fs =
     (case fs p of
        None \<Rightarrow> Inr (fs(p \<mapsto> Directory []))
      | Some (Directory _) \<Rightarrow> Inr fs
      | Some Regular \<Rightarrow> Inl FileExistsError)"

definition listing :: "filesystem \<Rightarrow> string \<Rightarrow> scan_item list" where
  "listing fs p = (case fs p of Some (Directory items) \<Rightarrow> items | _ \<Rightarrow> [ScanRaises])"

section \<open>The command builder\<close>

text \<open>\<open>which_dvgrab(path_pref)\<close>\<close>

definition which_dvgrab :: "os \<Rightarrow> filesystem \<Rightarrow> pyval \<Rightarrow> py_error + string" where
  "which_dvgrab env fs path_pref =
     (if truthy path_pref then
        (case path_pref of
           PStr s \<Rightarrow>
             if exists fs (Path s) \<or> CHR ''/'' \<in> set s then Inr s
             else (case which env s of
                     Some found \<Rightarrow> Inr (if found \<noteq> [] then found else s)
                   | None \<Rightarrow> Inr s)
         | _ \<Rightarrow> Inl TypeError)
      else
        (case which env ''dvgrab'' of
           Some found \<Rightarrow> Inr (if found \<noteq> [] then found else ''dvgrab'')
         | None \<Rightarrow> Inr ''dvgrab''))"

text \<open>The sections of \<open>build_dvgrab_cmd\<close>, in the order of the source.\<close>

definition format_args :: "pyval \<Rightarrow> string list" where
  "format_args fmt =
     (if truthy fmt then
        (if fmt = PStr ''mpeg2'' then [''-format'', ''mpeg2'']
         else if fmt \<in> set (map PStr [''dv2'', ''dv1'', ''raw'', ''qt'', ''mov'', ''avi''])
           then [''-format'', py_str fmt]
         else [])
      else [])"

definition scheme_args :: "pyval \<Rightarrow> string list" where
  "scheme_args scheme =
     (if scheme = PStr ''timestamp'' then [''-timestamp'']
      else if scheme = PStr ''timecode'' then [''-timecode'']
      else if scheme = PStr ''timesys'' then [''-timesys'']
      else [])"

definition size_args :: "int \<Rightarrow> string list" where
  "size_args size_mb = (if size_mb \<ge> 0 then [''-size'', str_int size_mb] else [])"

definition frames_args :: "int \<Rightarrow> string list" where
  "frames_args frames_per_file =
     (if frames_per_file > 0 then [''-frames'', str_int frames_per_file] else [])"

definition autosplit_args :: "values_dict \<Rightarrow> py_error + string list" where
  "autosplit_args values =
     (if truthy (get values ''autosplit'') then
        bind (py_int (por (get values ''autosplit_seconds'') (PInt 0))) (\<lambda>secs.
          Inr (if secs > 0 then [''-autosplit='' @ str_int secs] else [''-autosplit'']))
      else Inr [])"

definition csize_args :: "int \<Rightarrow> string list" where
  "csize_args csize_mb = (if csize_mb > 0 then [''-csize'', str_int csize_mb] else [])"

definition cmincutsize_args :: "int \<Rightarrow> string list" where
  "cmincutsize_args cmincutsize_mb =
     (if cmincutsize_mb > 0 then [''-cmincutsize'', str_int cmincutsize_mb] else [])"

definition splitting_args :: "values_dict \<Rightarrow> py_error + string list" where
  "splitting_args values =
     bind (py_int (por (get values ''size_mb'') (PInt 0))) (\<lambda>size_mb.
     bind (py_int (por (get values ''frames_per_file'') (PInt 0))) (\<lambda>frames_per_file.
     bind (autosplit_args values) (\<lambda>autosplit.
     bind (py_int (por (get values ''csize_mb'') (PInt 0))) (\<lambda>csize_mb.
     bind (py_int (por (get values ''cmincutsize_mb'') (PInt 0))) (\<lambda>cmincutsize_mb.
       Inr (size_args size_mb @ frames_args frames_per_file @ autosplit
            @ csize_args csize_mb @ cmincutsize_args cmincutsize_mb))))))"

definition behaviour_args :: "values_dict \<Rightarrow> pyval \<Rightarrow> string list" where
  "behaviour_args values fmt =
     (if truthy (get_default values ''showstatus'' (PBool True)) then [''-showstatus''] else [])
     @ (if truthy (get_default values ''rewind'' (PBool False)) then [''-rewind''] else [])
     @ (if truthy (get_default values ''noavc'' (PBool False)) then [''-noavc''] else [])
     @ (if truthy (get_default values ''recordonly'' (PBool False)) then [''-recordonly''] else [])
     @ (if truthy (get_default values ''opendml'' (PBool False)) \<and> fmt = PStr ''dv2''
        then [''-opendml''] else [])"

definition routing_args :: "values_dict \<Rightarrow> string list" where
  "routing_args values =
     (let card = strip (py_str (por (get values ''card'') (PStr [])));
          channel = strip (py_str (por (get values ''channel'') (PStr [])));
          guid = strip (py_str (por (get values ''guid'') (PStr [])))
      in (if isdigit card then [''-card'', card] else [])
         @ (if isdigit channel then [''-channel'', channel] else [])
         @ (if guid \<noteq> [] then [''-guid'', guid] else []))"

definition v4l2_args :: "values_dict \<Rightarrow> string list" where
  "v4l2_args values =
     (if truthy (get_default values ''use_v4l2'' (PBool False)) then
        (let v4l2_input = strip (py_str (por (get values ''v4l2_input'') (PStr [])))
         in ''-v4l2'' # (if v4l2_input \<noteq> [] then [''-input'', v4l2_input] else []))
      else [])"

definition duration_args :: "values_dict \<Rightarrow> string list" where
  "duration_args values =
     (let dur = strip (py_str (por (get values ''duration'') (PStr [])))
      in if dur \<noteq> [] then [''-duration'', dur] else [])"

definition decimation_args :: "values_dict \<Rightarrow> py_error + string list" where
  "decimation_args values =
     bind (py_int (por (get values ''every_nth'') (PInt 1))) (\<lambda>every.
       Inr (if every \<noteq> 0 \<and> every > 1 then [''-every'', str_int every] else []))"

text \<open>\<open>build_dvgrab_cmd(values, capture_dir)\<close>\<close>

definition build_dvgrab_cmd ::
  "os \<Rightarrow> filesystem \<Rightarrow> values_dict \<Rightarrow> string \<Rightarrow> py_error + string list" where
  "build_dvgrab_cmd env fs values capture_dir =
     bind (index values ''dvgrab_path'') (\<lambda>path_pref.
     bind (which_dvgrab env fs path_pref) (\<lambda>dvgrab_bin.
     bind (index values ''format'') (\<lambda>fmt.
     bind (index values ''filename_scheme'') (\<lambda>scheme.
     bind (splitting_args values) (\<lambda>splitting.
     bind (decimation_args values) (\<lambda>decimation.
       Inr ([dvgrab_bin] @ format_args fmt @ scheme_args scheme @ splitting
            @ behaviour_args values fmt @ routing_args values @ v4l2_args values
            @ duration_args values @ decimation
            @ [joinpath capture_dir ''clip-''])))))))"

section \<open>The directory allocator\<close>

text \<open>
  The allocation state is the \<open>next_index_by_dir\<close> entry of the configuration: absent, or
  a dictionary from base directory to the next index. The other keys of the
  configuration are not read by the functions modelled here.
\<close>

record config =
  next_index_by_dir :: "(string \<rightharpoonup> int) option"

text \<open>
  \<open>pat.match(name)\<close> for the pattern \<open>^prefix(\d+)$\<close>, the prefix escaped: the digits of
  group 1. Without the multi-line flag, \<open>$\<close> also matches just before a newline that
  ends the string.
\<close>

definition pat_match :: "string \<Rightarrow> string \<Rightarrow> string option" where
  "pat_match prefix name =
     (if take (length prefix) name = prefix then
        (let rest = drop (length prefix) name;
             ds = (if rest \<noteq> [] \<and> last rest = CHR 0x0A then butlast rest else rest)
         in if ds \<noteq> [] \<and> list_all isdecimal ds then Some ds else None)
      else None)"

text \<open>The scan loop; an exception ends it with the maximum found so far.\<close>

fun scan :: "string \<Rightarrow> scan_item list \<Rightarrow> int \<Rightarrow> int" where
  "scan prefix [] max_found = max_found"
| "scan prefix (ScanRaises # rest) max_found = max_found"
| "scan prefix (Child name is_dir # rest) max_found =
     (if is_dir then
        (case pat_match prefix name of
           Some ds \<Rightarrow>
             (let n = int (digits_val ds)
              in scan prefix rest (if n > max_found then n else max_found))
         | None \<Rightarrow> scan prefix rest max_found)
      else scan prefix rest max_found)"

definition next_map_of :: "config \<Rightarrow> (string \<rightharpoonup> int)" where
  "next_map_of c = (case next_index_by_dir c of None \<Rightarrow> Map.empty | Some m \<Rightarrow> m)"

definition start_idx_of :: "config \<Rightarrow> string \<Rightarrow> int" where
  "start_idx_of c key = (case next_map_of c key of None \<Rightarrow> 1 | Some v \<Rightarrow> v)"

definition alloc_idx :: "config \<Rightarrow> string \<Rightarrow> string \<Rightarrow> scan_item list \<Rightarrow> int" where
  "alloc_idx c key prefix items = max (start_idx_of c key) (scan prefix items 0 + 1)"

text \<open>
  \<open>find_next_subfolder(base_dir, prefix, cfg)\<close>: the candidate path, with the
  configuration and the file system as it leaves them.
\<close>

definition find_next_subfolder ::
  "os \<Rightarrow> string \<Rightarrow> string \<Rightarrow> config \<times> filesystem
     \<Rightarrow> py_error + (string \<times> config \<times> filesystem)" where
  "find_next_subfolder env base_dir prefix st =
     (let c = fst st;
          key = resolve env (expanduser env base_dir)
      in bind (mkdir key (snd st)) (\<lambda>fs.
           let idx = alloc_idx c key prefix (listing fs key);
               candidate = joinpath key (prefix @ str_int idx)
           in Inr (candidate,
                   c\<lparr>next_index_by_dir := Some ((next_map_of c)(key \<mapsto> idx + 1))\<rparr>,
                   fs)))"

section \<open>The application\<close>

text \<open>The variables behind the entry fields, check boxes and radio buttons.\<close>

record ui =
  output_dir_var :: string
  subprefix_var :: string
  format_var :: string
  scheme_var :: string
  size_mb_var :: string
  autosplit_var :: bool
  autosplit_secs_var :: string
  showstatus_var :: bool
  rewind_var :: bool
  noavc_var :: bool
  recordonly_var :: bool
  opendml_var :: bool
  dvgrab_path_var :: string
  frames_per_file_var :: string
  every_nth_var :: string
  csize_mb_var :: string
  cmincutsize_mb_var :: string
  card_var :: string
  channel_var :: string
  guid_var :: string
  duration_var :: string
  use_v4l2_var :: bool
  v4l2_input_var :: string

definition fmt_map :: "string \<rightharpoonup> string" where
  "fmt_map = map_of
     [(''dv2 (AVI Type 2)'', ''dv2''),
      (''dv1 (AVI Type 1)'', ''dv1''),
      (''raw (.dv)'', ''raw''),
      (''qt (QuickTime)'', ''qt''),
      (''mov (QuickTime)'', ''mov''),
      (''avi'', ''avi''),
      (''mpeg2 (HDV .m2t)'', ''mpeg2'')]"

text \<open>\<open>App._gather_values\<close>\<close>

definition gather_values :: "ui \<Rightarrow> values_dict" where
  "gather_values u = map_of
     [(''output_dir'', PStr (strip (output_dir_var u))),
      (''subfolder_prefix'', por (PStr (strip (subprefix_var u))) (PStr ''tape'')),
      (''filename_scheme'', PStr (scheme_var u)),
      (''format'', PStr (case fmt_map (format_var u) of None \<Rightarrow> ''dv2'' | Some f \<Rightarrow> f)),
      (''showstatus'', PBool (showstatus_var u)),
      (''autosplit'', PBool (autosplit_var u)),
      (''autosplit_seconds'', PInt (as_int (autosplit_secs_var u) 0)),
      (''size_mb'', PInt (as_int (size_mb_var u) 0)),
      (''csize_mb'', PInt (as_int (csize_mb_var u) 0)),
      (''cmincutsize_mb'', PInt (as_int (cmincutsize_mb_var u) 0)),
      (''rewind'', PBool (rewind_var u)),
      (''noavc'', PBool (noavc_var u)),
      (''recordonly'', PBool (recordonly_var u)),
      (''opendml'', PBool (opendml_var u)),
      (''frames_per_file'', PInt (as_int (frames_per_file_var u) 0)),
      (''every_nth'', PInt (as_int (every_nth_var u) 1)),
      (''card'', PStr (strip (card_var u))),
      (''channel'', PStr (strip (channel_var u))),
      (''guid'', PStr (strip (guid_var u))),
      (''duration'', PStr (strip (duration_var u))),
      (''use_v4l2'', PBool (use_v4l2_var u)),
      (''v4l2_input'', PStr (strip (v4l2_input_var u))),
      (''dvgrab_path'', por (PStr (strip (dvgrab_path_var u))) (PStr ''dvgrab''))]"

text \<open>\<open>shlex.quote\<close> and the command line shown to the user.\<close>

definition shell_safe :: "char \<Rightarrow> bool" where
  "shell_safe c = (let n = (of_char c :: nat) in
     (48 \<le> n \<and> n \<le> 57) \<or> (65 \<le> n \<and> n \<le> 90) \<or> (97 \<le> n \<and> n \<le> 122)
     \<or> c \<in> set ''_@%+=:,./-'')"

definition quote :: "string \<Rightarrow> string" where
  "quote s =
     (if s = [] then [CHR 0x27, CHR 0x27]
      else if list_all shell_safe s then s
      else [CHR 0x27]
           @ concat (map (\<lambda>c. if c = CHR 0x27
                               then [CHR 0x27, CHR 0x22, CHR 0x27, CHR 0x22, CHR 0x27]
                               else [c]) s)
           @ [CHR 0x27])"

definition command_line :: "string list \<Rightarrow> string" where
  "command_line cmd = join_with '' '' (map quote cmd)"

text \<open>
  The message boxes, one constructor for each call in the source, and what a run of
  \<open>start_capture\<close> ends with; \<open>Raised\<close> is an exception that \<open>start_capture\<close> does not
  catch.
\<close>

datatype dialog =
    AlreadyRunningInfo
  | NotFoundError string
  | ChooseOutputError
  | StartFailedError string
  | BuildFailedError py_error

datatype outcome =
    AlreadyRunning
  | DvgrabNotFound
  | NoOutputDir
  | StartFailed string
  | Started
  | Raised py_error

datatype status = Idle | Capturing

text \<open>
  The state of the application and of the host: the in-memory configuration, the
  variables of the widgets, the running process (its command), and what the run leaves
  outside: log lines (text and error flag, without the time stamp), clipboard, message
  boxes, the file system and the saved configuration file.
\<close>

record app =
  cfg :: config
  vars :: ui
  proc :: "string list option"
  last_folder :: "string option"
  stop_requested :: bool
  start_btn :: bool
  stop_btn :: bool
  status_var :: status
  log_lines :: "(string \<times> bool) list"
  clipboard :: "string option"
  dialogs :: "dialog list"
  disk :: filesystem
  config_file :: "config option"

definition log_line :: "string \<Rightarrow> bool \<Rightarrow> app \<Rightarrow> app" where
  "log_line text is_err a = a\<lparr>log_lines := log_lines a @ [(text, is_err)]\<rparr>"

definition show_dialog :: "dialog \<Rightarrow> app \<Rightarrow> app" where
  "show_dialog d a = a\<lparr>dialogs := dialogs a @ [d]\<rparr>"

text \<open>A value used where the callee requires a \<open>str\<close>, and \<open>Path(x)\<close>.\<close>

fun the_str :: "pyval \<Rightarrow> py_error + string" where
  "the_str (PStr s) = Inr s"
| "the_str _ = Inl TypeError"

definition Path_of :: "pyval \<Rightarrow> py_error + string" where
  "Path_of x = bind (the_str x) (\<lambda>s. Inr (Path s))"

text \<open>\<open>not shutil.which(p)\<close> is false exactly when a non-empty path was found.\<close>

definition which_finds :: "os \<Rightarrow> string \<Rightarrow> bool" where
  "which_finds env p = (case which env p of None \<Rightarrow> False | Some found \<Rightarrow> found \<noteq> [])"

text \<open>\<open>App.copy_command\<close>\<close>

definition copy_command :: "os \<Rightarrow> app \<Rightarrow> app" where
  "copy_command env a =
     (let vals = gather_values (vars a) in
      case bind (index vals ''output_dir'') Path_of of
        Inl e \<Rightarrow> show_dialog (BuildFailedError e) a
      | Inr p \<Rightarrow>
         (let base_dir = expanduser env p in
          case bind (index vals ''subfolder_prefix'') the_str of
            Inl e \<Rightarrow> show_dialog (BuildFailedError e) a
          | Inr prefix \<Rightarrow>
             (case find_next_subfolder env base_dir prefix (cfg a, disk a) of
                Inl e \<Rightarrow> show_dialog (BuildFailedError e) a
              | Inr (subdir, cfg1, fs1) \<Rightarrow>
                 (let a1 = a\<lparr>cfg := cfg1, disk := fs1\<rparr> in
                  case build_dvgrab_cmd env fs1 vals subdir of
                    Inl e \<Rightarrow> show_dialog (BuildFailedError e) a1
                  | Inr cmd \<Rightarrow>
                     (let cmd_str = command_line cmd
                      in log_line (''Copied command:'' @ [CHR 0x0A] @ cmd_str) False
                           (a1\<lparr>clipboard := Some cmd_str\<rparr>))))))"

text \<open>\<open>App.start_capture\<close>\<close>

definition start_capture :: "os \<Rightarrow> app \<Rightarrow> outcome \<times> app" where
  "start_capture env a =
     (if proc a \<noteq> None then (AlreadyRunning, show_dialog AlreadyRunningInfo a)
      else
       (let vals = gather_values (vars a) in
        case bind (index vals ''dvgrab_path'') (which_dvgrab env (disk a)) of
          Inl e \<Rightarrow> (Raised e, a)
        | Inr dv_path \<Rightarrow>
           if \<not> which_finds env dv_path \<and> \<not> exists (disk a) (Path dv_path)
           then (DvgrabNotFound, show_dialog (NotFoundError dv_path) a)
           else
            (case bind (index vals ''output_dir'') Path_of of
               Inl e \<Rightarrow> (Raised e, a)
             | Inr p \<Rightarrow>
                (let base_dir = expanduser env p in
                 if \<not> path_truthy base_dir
                 then (NoOutputDir, show_dialog ChooseOutputError a)
                 else
                  (case bind (index vals ''subfolder_prefix'') the_str of
                     Inl e \<Rightarrow> (Raised e, a)
                   | Inr prefix \<Rightarrow>
                      (case find_next_subfolder env base_dir prefix (cfg a, disk a) of
                         Inl e \<Rightarrow> (Raised e, a)
                       | Inr (subdir, cfg1, fs1) \<Rightarrow>
                          (let a1 = a\<lparr>cfg := cfg1, disk := fs1\<rparr> in
                           case mkdir subdir fs1 of
                             Inl e \<Rightarrow> (Raised e, a1)
                           | Inr fs2 \<Rightarrow>
                              (let a2 = a1\<lparr>disk := fs2, last_folder := Some subdir,
                                           config_file := Some cfg1\<rparr> in
                               case build_dvgrab_cmd env fs2 vals subdir of
                                 Inl e \<Rightarrow> (Raised e, a2)
                               | Inr cmd \<Rightarrow>
                                  (let a3 = log_line (''Command: '' @ command_line cmd) False
                                              (log_line (''Starting capture in: '' @ subdir)
                                                 False a2);
                                       a4 = a3\<lparr>stop_requested := False\<rparr> in
                                   case popen env cmd of
                                     Some e \<Rightarrow>
                                       (StartFailed e,
                                        show_dialog (StartFailedError e) (a4\<lparr>proc := None\<rparr>))
                                   | None \<Rightarrow>
                                       (Started,
                                        a4\<lparr>proc := Some cmd, start_btn := False,
                                           stop_btn := True,
                                           status_var := Capturing\<rparr>))))))))))"

section \<open>The stream reader\<close>

text \<open>
  \<open>App._read_stream(stream, tag)\<close>. The stream is given by the strings that successive
  calls of \<open>readline\<close> return; the loop ends at the first empty string. The queue holds
  pairs of text and tag, the tag being \<open>None\<close> or \<open>"err"\<close>.
\<close>

type_synonym log_queue = "(string \<times> string option) list"

fun put_parts :: "string list \<Rightarrow> string option \<Rightarrow> log_queue \<Rightarrow> log_queue" where
  "put_parts [] tag q = q"
| "put_parts (p # ps) tag q =
     put_parts ps tag (if strip p \<noteq> [] then q @ [(rstrip p, tag)] else q)"

fun read_lines :: "string list \<Rightarrow> string option \<Rightarrow> log_queue \<Rightarrow> log_queue" where
  "read_lines [] tag q = q"
| "read_lines (line # rest) tag q =
     (if line = [] then q
      else if CHR 0x0D \<in> set line
        then read_lines rest tag (put_parts (split_on (CHR 0x0D) line) tag q)
      else read_lines rest tag (q @ [(rstrip line, tag)]))"

definition read_stream :: "string list option \<Rightarrow> string option \<Rightarrow> log_queue \<Rightarrow> log_queue" where
  "read_stream stream tag q =
     (case stream of None \<Rightarrow> q | Some lines \<Rightarrow> read_lines lines tag q)"

text \<open>
  The streams that \<open>_pump_process\<close> hands to \<open>_read_stream\<close> are the two pipes of the
  process, which \<open>start_capture\<close> opens with \<open>text=True\<close>: text mode with universal
  newlines. Every line ending of the output, a carriage return followed by a newline, a
  lone carriage return or a newline, reaches the reader as one newline. \<open>readline\<close>
  returns the text up to and including the next newline, what is left at the end of the
  output, and then the empty string. \<open>read_pipe\<close> is the reader on the pipe of a process
  whose whole output on that pipe is \<open>raw\<close>.
\<close>

fun translate_newlines :: "string \<Rightarrow> string" where
  "translate_newlines [] = []"
| "translate_newlines [c] = (if c = CHR 0x0D then [CHR 0x0A] else [c])"
| "translate_newlines (c # d # cs) =
     (if c = CHR 0x0D then
        (if d = CHR 0x0A then CHR 0x0A # translate_newlines cs
         else CHR 0x0A # translate_newlines (d # cs))
      else c # translate_newlines (d # cs))"

fun readlines :: "string \<Rightarrow> string list" where
  "readlines [] = []"
| "readlines (c # cs) =
     (if c = CHR 0x0A then [c] # readlines cs
      else (case readlines cs of
              [] \<Rightarrow> [[c]]
            | l # ls \<Rightarrow> (c # l) # ls))"

definition pipe_lines :: "string \<Rightarrow> string list" where
  "pipe_lines raw = readlines (translate_newlines raw)"

definition read_pipe :: "string \<Rightarrow> string option \<Rightarrow> log_queue \<Rightarrow> log_queue" where
  "read_pipe raw tag q = read_stream (Some (pipe_lines raw)) tag q"

section \<open>Specification-side notions\<close>

text \<open>
  A name that is exactly the prefix followed by one or more decimal digits, and the number
  those digits denote.
\<close>

definition prefix_digits :: "string \<Rightarrow> string \<Rightarrow> bool" where
  "prefix_digits prefix name =
     (take (length prefix) name = prefix
      \<and> drop (length prefix) name \<noteq> []
      \<and> list_all isdecimal (drop (length prefix) name))"

definition suffix_number :: "string \<Rightarrow> string \<Rightarrow> int" where
  "suffix_number prefix name = int (digits_val (drop (length prefix) name))"

text \<open>
  The greatest number over the immediate children with such a name, 0 if there is none:
  first over all children, as the specification words it, then over the children that are
  directories.
\<close>

definition max_existing_children :: "string \<Rightarrow> scan_item list \<Rightarrow> int" where
  "max_existing_children prefix items =
     Max (set (0 # [suffix_number prefix name. Child name is_dir \<leftarrow> items,
                    prefix_digits prefix name]))"

definition max_existing_dirs :: "string \<Rightarrow> scan_item list \<Rightarrow> int" where
  "max_existing_dirs prefix items =
     Max (set (0 # [suffix_number prefix name. Child name True \<leftarrow> items,
                    prefix_digits prefix name]))"

definition ends_with_newline :: "string \<Rightarrow> bool" where
  "ends_with_newline name = (name \<noteq> [] \<and> last name = CHR 0x0A)"

text \<open>The fragments of the output of a process between carriage returns.\<close>

definition fragments :: "string \<Rightarrow> string list" where
  "fragments raw = split_on (CHR 0x0D) raw"

section \<open>Example states\<close>

text \<open>
  The widget variables as the default configuration sets them, a host where \<open>dvgrab\<close> is
  on the search path, one where it is nowhere, one where starting it fails, and an idle
  application on a given file system.
\<close>

definition default_ui :: ui where
  "default_ui =
     \<lparr>output_dir_var = ''/home/user/Videos'', subprefix_var = ''tape'',
      format_var = ''dv2 (AVI Type 2)'', scheme_var = ''timestamp'', size_mb_var = ''0'',
      autosplit_var = False, autosplit_secs_var = ''0'', showstatus_var = True,
      rewind_var = False, noavc_var = False, recordonly_var = False, opendml_var = True,
      dvgrab_path_var = ''dvgrab'', frames_per_file_var = ''0'', every_nth_var = ''1'',
      csize_mb_var = ''0'', cmincutsize_mb_var = ''0'', card_var = [], channel_var = [],
      guid_var = [], duration_var = [], use_v4l2_var = False,
      v4l2_input_var = ''/dev/video0''\<rparr>"

definition host_with_dvgrab :: os where
  "host_with_dvgrab =
     \<lparr>expanduser = (\<lambda>p. p),
      resolve = (\<lambda>p. if p = ''.'' then ''/home/user'' else p),
      which = (\<lambda>p. if p = ''dvgrab'' \<or> p = ''/usr/bin/dvgrab''
                      then Some ''/usr/bin/dvgrab'' else None),
      popen = (\<lambda>cmd. None)\<rparr>"

definition host_without_dvgrab :: os where
  "host_without_dvgrab = host_with_dvgrab\<lparr>which := (\<lambda>p. None)\<rparr>"

definition host_spawn_fails :: os where
  "host_spawn_fails = host_with_dvgrab\<lparr>popen := (\<lambda>cmd. Some ''Exec format error'')\<rparr>"

definition idle_app :: "ui \<Rightarrow> filesystem \<Rightarrow> app" where
  "idle_app u fs =
     \<lparr>cfg = \<lparr>next_index_by_dir = None\<rparr>, vars = u, proc = None, last_folder = None,
      stop_requested = False, start_btn = True, stop_btn = False, status_var = Idle,
      log_lines = [], clipboard = None, dialogs = [], disk = fs, config_file = None\<rparr>"

definition videos_fs :: "scan_item list \<Rightarrow> filesystem" where
  "videos_fs items = [''/home/user/Videos'' \<mapsto> Directory items]"

text \<open>
  What the application takes from its widgets for a capture: the executable, the
  sub-folder prefix and the key of the base directory in the allocation state. The result
  of an allocation is observed as the candidate path and the entry stored for a key.
\<close>

definition configured_dvgrab :: "ui \<Rightarrow> string" where
  "configured_dvgrab u =
     (if strip (dvgrab_path_var u) \<noteq> [] then strip (dvgrab_path_var u) else ''dvgrab'')"

definition configured_prefix :: "ui \<Rightarrow> string" where
  "configured_prefix u =
     (if strip (subprefix_var u) \<noteq> [] then strip (subprefix_var u) else ''tape'')"

definition base_key :: "os \<Rightarrow> ui \<Rightarrow> string" where
  "base_key env u = resolve env (expanduser env (expanduser env (Path (strip (output_dir_var u)))))"

definition candidate_and_next ::
  "string \<Rightarrow> py_error + (string \<times> config \<times> filesystem) \<Rightarrow> py_error + (string \<times> int option)" where
  "candidate_and_next key r = map_sum id (\<lambda>(candidate, c, fs). (candidate, next_map_of c key)) r"

definition archive_fs :: filesystem where
  "archive_fs =
     [''/home/user/Videos'' \<mapsto> Directory [Child ''2024'' True],
      ''/home/user/Videos/2024'' \<mapsto> Directory [Child ''tape1'' True],
      ''/home/user/Videos/2024/tape1'' \<mapsto> Directory [Child ''clip-001.avi'' False]]"

section \<open>Stripping and parsing\<close>

lemma rstrip_idem: "rstrip (rstrip t) = rstrip t"
  by (simp add: rstrip_def)

lemma lstrip_hd: "lstrip s = [] \<or> \<not> isspace (hd (lstrip s))"
  unfolding lstrip_def by (metis hd_dropWhile)

lemma lstrip_rstrip: "t = [] \<or> \<not> isspace (hd t) \<Longrightarrow> lstrip (rstrip t) = rstrip t"
proof (cases t)
  case Nil
  then show ?thesis by (simp add: lstrip_def rstrip_def)
next
  case (Cons x xs)
  assume "t = [] \<or> \<not> isspace (hd t)"
  with Cons have nx: "\<not> isspace x" by simp
  then have "rstrip t = x # rev (dropWhile isspace (rev xs))"
    using Cons by (simp add: rstrip_def dropWhile_append3)
  with nx show ?thesis by (simp add: lstrip_def)
qed

lemma strip_idem: "strip (strip s) = strip s"
  unfolding strip_def using lstrip_rstrip [OF lstrip_hd, of s] by (simp add: rstrip_idem)

lemma int_of_str_strip: "int_of_str (strip s) = int_of_str s"
  by (simp add: int_of_str_def strip_idem)

lemma as_int_default: "int_of_str s = Inl e \<Longrightarrow> as_int s d = d"
  by (simp add: as_int_def int_of_str_strip)

section \<open>Numeric fields of the gathered values\<close>

text \<open>
  Claim C3 says that a negative number typed into a numeric field is replaced by the
  default of the field. It is not: \<open>_as_int\<close> returns whatever integer the text denotes,
  and \<open>-5\<close> in the size field (or in the decimation field) reaches the gathered values
  as \<open>-5\<close>.
\<close>

theorem negative_input_counterexample:
  "gather_values (default_ui\<lparr>size_mb_var := ''-5''\<rparr>) ''size_mb'' = Some (PInt (- 5))
   \<and> gather_values (default_ui\<lparr>size_mb_var := ''-5''\<rparr>) ''size_mb'' \<noteq> Some (PInt 0)
   \<and> gather_values (default_ui\<lparr>every_nth_var := ''-5''\<rparr>) ''every_nth'' = Some (PInt (- 5))
   \<and> gather_values (default_ui\<lparr>every_nth_var := ''-5''\<rparr>) ''every_nth'' \<noteq> Some (PInt 1)"
  by code_simp

text \<open>
  Claim C3, amended: for every text that \<open>int\<close> parses to an integer \<open>v\<close>, negative or
  not, \<open>_as_int\<close> returns \<open>v\<close> whatever the default, and each of the six numeric fields
  of the gathered values holds \<open>v\<close> when its entry holds that text. (The default is
  returned only for a text that does not parse, see \<open>as_int_default\<close>; the guards of the
  command builder are what keep negative numbers out of the command.)
\<close>

theorem numeric_fields_pass_through:
  "int_of_str s = Inr v \<Longrightarrow>
     as_int s d = v
     \<and> gather_values (u\<lparr>size_mb_var := s\<rparr>) ''size_mb'' = Some (PInt v)
     \<and> gather_values (u\<lparr>autosplit_secs_var := s\<rparr>) ''autosplit_seconds'' = Some (PInt v)
     \<and> gather_values (u\<lparr>csize_mb_var := s\<rparr>) ''csize_mb'' = Some (PInt v)
     \<and> gather_values (u\<lparr>cmincutsize_mb_var := s\<rparr>) ''cmincutsize_mb'' = Some (PInt v)
     \<and> gather_values (u\<lparr>frames_per_file_var := s\<rparr>) ''frames_per_file'' = Some (PInt v)
     \<and> gather_values (u\<lparr>every_nth_var := s\<rparr>) ''every_nth'' = Some (PInt v)"
  by (simp add: gather_values_def as_int_def int_of_str_strip)

theorem numeric_fields_pass_through_witness:
  "int_of_str ''-12'' = Inr (- 12)
   \<and> as_int ''-12'' 0 = - 12
   \<and> gather_values (default_ui\<lparr>size_mb_var := ''-12''\<rparr>) ''size_mb'' = Some (PInt (- 12))"
proof -
  have h: "int_of_str ''-12'' = Inr (- 12)" by code_simp
  show ?thesis using h numeric_fields_pass_through [OF h, of 0 default_ui] by simp
qed

section \<open>The argument vector\<close>



text \<open>
  Claim C7 says that the size option is in every argument vector. The builder guards it
  with \<open>size_mb >= 0\<close>: with \<open>-1\<close> in the size field the vector has no \<open>-size\<close> token.
\<close>

theorem size_option_counterexample:
  "build_dvgrab_cmd host_with_dvgrab Map.empty
       (gather_values (default_ui\<lparr>size_mb_var := ''-1''\<rparr>)) ''/home/user/Videos/tape1''
     = Inr [''/usr/bin/dvgrab'', ''-format'', ''dv2'', ''-timestamp'',
            ''-showstatus'', ''-opendml'', ''/home/user/Videos/tape1/clip-'']"
  by code_simp

text \<open>
  Claim C7, amended: whenever \<open>build_dvgrab_cmd\<close> returns an argument vector and the
  configured size (\<open>int(values.get("size_mb") or 0)\<close>) is not negative, the vector holds
  the token \<open>-size\<close> followed by that size, also when the size is 0.
\<close>

theorem size_option_emitted:
  assumes "build_dvgrab_cmd env fs values capture_dir = Inr cmd"
    and "py_int (por (get values ''size_mb'') (PInt 0)) = Inr v"
    and "0 \<le> v"
  shows "\<exists>pre post. cmd = pre @ [''-size'', str_int v] @ post"
proof -
  from assms(1,2) obtain bin fmt scheme rest where
    "cmd = ([bin] @ format_args fmt @ scheme_args scheme) @ size_args v @ rest"
    by (auto simp: build_dvgrab_cmd_def splitting_args_def bind_def split: sum.splits)
  with assms(3)
  have "cmd = ([bin] @ format_args fmt @ scheme_args scheme) @ [''-size'', str_int v] @ rest"
    by (simp add: size_args_def)
  then show ?thesis by blast
qed

theorem size_option_emitted_witness:
  "\<exists>pre post.
     [''/usr/bin/dvgrab'', ''-format'', ''dv2'', ''-timestamp'', ''-size'', ''0'',
      ''-showstatus'', ''-opendml'', ''/home/user/Videos/tape1/clip-'']
       = pre @ [''-size'', str_int 0] @ post"
proof -
  have h1: "build_dvgrab_cmd host_with_dvgrab Map.empty (gather_values default_ui)
       ''/home/user/Videos/tape1''
     = Inr [''/usr/bin/dvgrab'', ''-format'', ''dv2'', ''-timestamp'', ''-size'', ''0'',
            ''-showstatus'', ''-opendml'', ''/home/user/Videos/tape1/clip-'']"
    by code_simp
  have h2: "py_int (por (get (gather_values default_ui) ''size_mb'') (PInt 0)) = Inr 0"
    by code_simp
  show ?thesis using size_option_emitted [OF h1 h2] by simp
qed

section \<open>The builder and the host\<close>

lemma which_dvgrab_error:
  "which_dvgrab env fs pp = Inl e \<Longrightarrow> which_dvgrab env' fs' pp = Inl e"
  by (cases pp) (auto simp: which_dvgrab_def split: option.splits if_splits)

lemma which_dvgrab_slash:
  "CHR ''/'' \<in> set s \<Longrightarrow> which_dvgrab env fs (PStr s) = Inr s"
  by (auto simp: which_dvgrab_def)

lemma build_tail:
  "map_sum id tl (build_dvgrab_cmd env1 fs1 values d)
     = map_sum id tl (build_dvgrab_cmd env2 fs2 values d)"
proof (cases "index values ''dvgrab_path''")
  case (Inl e)
  then show ?thesis by (simp add: build_dvgrab_cmd_def bind_def)
next
  case (Inr pp)
  show ?thesis
  proof (cases "which_dvgrab env1 fs1 pp")
    case (Inl e)
    from which_dvgrab_error [OF this] have "which_dvgrab env2 fs2 pp = Inl e" .
    with Inl Inr show ?thesis by (simp add: build_dvgrab_cmd_def bind_def)
  next
    case b1: (Inr b1)
    show ?thesis
    proof (cases "which_dvgrab env2 fs2 pp")
      case (Inl e)
      from which_dvgrab_error [OF this] have "which_dvgrab env1 fs1 pp = Inl e" .
      with b1 show ?thesis by simp
    next
      case b2: (Inr b2)
      with b1 Inr show ?thesis
        by (simp add: build_dvgrab_cmd_def bind_def split: sum.splits)
    qed
  qed
qed

lemma build_slash:
  "values ''dvgrab_path'' = Some (PStr s) \<Longrightarrow> CHR ''/'' \<in> set s \<Longrightarrow>
   build_dvgrab_cmd env1 fs1 values d = build_dvgrab_cmd env2 fs2 values d"
  by (simp add: build_dvgrab_cmd_def bind_def index_def which_dvgrab_slash)

text \<open>
  Claim C2 says that \<open>build_dvgrab_cmd\<close> never reads the file system or the environment.
  It calls \<open>which_dvgrab\<close>, which tests whether the configured path exists and searches
  the search path: with the same values and the same target directory the vector differs
  between a host where \<open>dvgrab\<close> is on the search path and one where it is not, and
  between a host with no file named \<open>dvgrab\<close> in the working directory and one with it.
\<close>

theorem build_reads_host_counterexample:
  "build_dvgrab_cmd host_with_dvgrab Map.empty (gather_values default_ui)
       ''/home/user/Videos/tape1''
     \<noteq> build_dvgrab_cmd host_without_dvgrab Map.empty (gather_values default_ui)
         ''/home/user/Videos/tape1''
   \<and> build_dvgrab_cmd host_with_dvgrab Map.empty (gather_values default_ui)
       ''/home/user/Videos/tape1''
     \<noteq> build_dvgrab_cmd host_with_dvgrab [''dvgrab'' \<mapsto> Regular] (gather_values default_ui)
         ''/home/user/Videos/tape1''"
  by code_simp

text \<open>
  Claim C2, amended: \<open>build_dvgrab_cmd\<close> is a function of the values, the target
  directory and the host, and the host matters for the first element only, the
  executable that \<open>which_dvgrab\<close> resolves: on any two hosts the same values and target
  directory give the same outcome up to the first element of the vector, and the same
  vector altogether when the configured path contains a slash.
\<close>

theorem host_matters_for_executable_only:
  "map_sum id tl (build_dvgrab_cmd env1 fs1 values d)
     = map_sum id tl (build_dvgrab_cmd env2 fs2 values d)
   \<and> (values ''dvgrab_path'' = Some (PStr s) \<longrightarrow> CHR ''/'' \<in> set s \<longrightarrow>
        build_dvgrab_cmd env1 fs1 values d = build_dvgrab_cmd env2 fs2 values d)"
  using build_tail build_slash by blast

theorem host_matters_for_executable_only_witness:
  "gather_values (default_ui\<lparr>dvgrab_path_var := ''/opt/dvgrab''\<rparr>) ''dvgrab_path''
     = Some (PStr ''/opt/dvgrab'')
   \<and> CHR ''/'' \<in> set ''/opt/dvgrab''
   \<and> build_dvgrab_cmd host_with_dvgrab Map.empty
        (gather_values (default_ui\<lparr>dvgrab_path_var := ''/opt/dvgrab''\<rparr>))
        ''/home/user/Videos/tape1''
     = build_dvgrab_cmd host_without_dvgrab [''dvgrab'' \<mapsto> Regular]
        (gather_values (default_ui\<lparr>dvgrab_path_var := ''/opt/dvgrab''\<rparr>))
        ''/home/user/Videos/tape1''"
proof -
  have h1: "gather_values (default_ui\<lparr>dvgrab_path_var := ''/opt/dvgrab''\<rparr>) ''dvgrab_path''
     = Some (PStr ''/opt/dvgrab'')"
    by code_simp
  have h2: "CHR ''/'' \<in> set ''/opt/dvgrab''" by simp
  show ?thesis
    using h1 h2
      host_matters_for_executable_only
        [of host_with_dvgrab Map.empty
            "gather_values (default_ui\<lparr>dvgrab_path_var := ''/opt/dvgrab''\<rparr>)"
            "''/home/user/Videos/tape1''" host_without_dvgrab "[''dvgrab'' \<mapsto> Regular]"
            "''/opt/dvgrab''"]
    by blast
qed

section \<open>Carriage returns in the stream\<close>

lemma translate_no_cr: "CHR 0x0D \<notin> set (translate_newlines s)"
  by (induction s rule: translate_newlines.induct) auto

lemma readlines_concat: "concat (readlines s) = s"
  by (induction s) (auto split: list.splits)

lemma readlines_nonempty: "[] \<notin> set (readlines s)"
  by (induction s) (auto split: list.splits)

lemma pipe_lines_no_cr: "line \<in> set (pipe_lines raw) \<Longrightarrow> CHR 0x0D \<notin> set line"
proof -
  assume "line \<in> set (pipe_lines raw)"
  then have "set line \<subseteq> set (concat (pipe_lines raw))" by auto
  then show ?thesis
    using translate_no_cr [of raw] by (auto simp: pipe_lines_def readlines_concat)
qed

lemma read_lines_plain:
  "[] \<notin> set ls \<Longrightarrow> \<forall>l \<in> set ls. CHR 0x0D \<notin> set l \<Longrightarrow>
   read_lines ls tag q = q @ map (\<lambda>l. (rstrip l, tag)) ls"
  by (induction ls arbitrary: q) auto

text \<open>
  No line of a pipe has a carriage return in it, so on a pipe the reader never takes the
  branch that splits on carriage returns and drops the blank fragments: every line of the
  pipe is enqueued, stripped on the right, blank or not.
\<close>

lemma read_pipe_eq:
  "read_pipe raw tag q = q @ map (\<lambda>l. (rstrip l, tag)) (pipe_lines raw)"
  using read_lines_plain [of "pipe_lines raw" tag q] pipe_lines_no_cr [of _ raw]
    readlines_nonempty [of "translate_newlines raw"]
  by (auto simp: read_pipe_def read_stream_def pipe_lines_def)

text \<open>
  Claim C8: the output of the process is split on carriage returns and each non-empty
  fragment, and nothing else, becomes a log line of its own. The reader has a branch that
  does this, but the pipes translate every carriage return before the reader sees it, and
  the branch it takes instead enqueues empty lines too. For the output \<open>a\<close>, two carriage
  returns, \<open>b\<close> the non-empty fragments are \<open>a\<close> and \<open>b\<close>, and the reader enqueues three
  lines, the second one empty; so it does when one space stands between the carriage
  returns. The chunk of the claim does give exactly its two log lines.
\<close>

theorem empty_fragment_is_enqueued:
  "filter (\<lambda>p. p \<noteq> []) (fragments (''a'' @ [CHR 0x0D, CHR 0x0D] @ ''b'')) = [''a'', ''b'']
   \<and> read_pipe (''a'' @ [CHR 0x0D, CHR 0x0D] @ ''b'') None []
       = [(''a'', None), ([], None), (''b'', None)]
   \<and> read_pipe (''a'' @ [CHR 0x0D] @ '' '' @ [CHR 0x0D] @ ''b'') None []
       = [(''a'', None), ([], None), (''b'', None)]
   \<and> read_pipe (''Capturing... 00:01'' @ [CHR 0x0D] @ ''Capturing... 00:02'' @ [CHR 0x0D])
        None []
       = [(''Capturing... 00:01'', None), (''Capturing... 00:02'', None)]"
  by code_simp

section \<open>Allocation\<close>

lemma Max_cons: "Max (set (0 # a # xs)) = max (a::int) (Max (set (0 # xs)))"
proof -
  have "set (0 # a # xs) = insert a (set (0 # xs))" by auto
  then show ?thesis by (simp del: set_simps add: Max_insert)
qed

lemma max_existing_dirs_Nil: "max_existing_dirs prefix [] = 0"
  by (simp add: max_existing_dirs_def)

lemma max_existing_dirs_Cons:
  "max_existing_dirs prefix (Child name is_dir # rest)
     = (if is_dir \<and> prefix_digits prefix name
        then max (suffix_number prefix name) (max_existing_dirs prefix rest)
        else max_existing_dirs prefix rest)"
  unfolding max_existing_dirs_def using Max_cons by (cases is_dir) (simp_all del: set_simps)

lemma pat_match_exact:
  "\<not> ends_with_newline name \<Longrightarrow>
   pat_match prefix name
     = (if prefix_digits prefix name then Some (drop (length prefix) name) else None)"
  by (auto simp: pat_match_def prefix_digits_def ends_with_newline_def Let_def last_drop)

text \<open>
  A scan that nothing interrupts, over names that do not end in a newline, finds the
  greatest number among the directories named by the prefix and decimal digits.
\<close>

lemma scan_max:
  assumes "ScanRaises \<notin> set items"
    and "\<forall>name. Child name True \<in> set items \<longrightarrow> \<not> ends_with_newline name"
    and "0 \<le> m"
  shows "scan prefix items m = max m (max_existing_dirs prefix items)"
  using assms
proof (induction items arbitrary: m)
  case Nil
  then show ?case by (simp add: max_existing_dirs_Nil)
next
  case (Cons it rest)
  show ?case
  proof (cases it)
    case ScanRaises
    with Cons.prems show ?thesis by simp
  next
    case (Child name is_dir)
    from Cons.prems
    have r: "scan prefix rest m' = max m' (max_existing_dirs prefix rest)" if "0 \<le> m'" for m'
      using that by (intro Cons.IH) auto
    from Cons.prems have m: "0 \<le> m" by simp
    show ?thesis
    proof (cases is_dir)
      case False
      with Child r [OF m] show ?thesis by (simp add: max_existing_dirs_Cons)
    next
      case True
      with Child Cons.prems have "\<not> ends_with_newline name" by auto
      from pat_match_exact [OF this] Child True r m show ?thesis
        by (auto simp: max_existing_dirs_Cons suffix_number_def Let_def)
    qed
  qed
qed

lemma max_existing_dirs_nonneg: "0 \<le> max_existing_dirs prefix items"
  unfolding max_existing_dirs_def by (rule Max_ge, rule finite_set, rule list.set_intros(1))

lemma scan_from_zero:
  assumes "ScanRaises \<notin> set items"
    and "\<forall>name. Child name True \<in> set items \<longrightarrow> \<not> ends_with_newline name"
  shows "scan prefix items 0 = max_existing_dirs prefix items"
  using scan_max [OF assms, of 0 prefix] max_existing_dirs_nonneg [of prefix items] by simp

lemma alloc_idx_ge: "start_idx_of c key \<le> alloc_idx c key prefix items"
  by (simp add: alloc_idx_def)

lemma mkdir_result:
  "mkdir p fs = Inr fs' \<Longrightarrow>
     (\<exists>items. fs' p = Some (Directory items)) \<and> (fs p = None \<longrightarrow> fs' p = Some (Directory []))
     \<and> (\<forall>q. q \<noteq> p \<longrightarrow> fs' q = fs q)"
  by (auto simp: mkdir_def split: option.splits node.splits)

text \<open>
  Claim C4 takes the greatest number over the immediate children named by the prefix and
  decimal digits. The scan looks at a child only \<open>if p.is_dir()\<close>: with a regular file
  \<open>tape7\<close> as the only child and no state entry, the allocation returns \<open>tape1\<close> and stores
  2, where the formula of the claim gives index 8.
\<close>

theorem file_child_counterexample:
  "candidate_and_next ''/home/user/Videos''
     (find_next_subfolder host_with_dvgrab ''/home/user/Videos'' ''tape''
        (\<lparr>next_index_by_dir = None\<rparr>, videos_fs [Child ''tape7'' False]))
     = Inr (''/home/user/Videos/tape1'', Some 2)
   \<and> max 1 (max_existing_children ''tape'' [Child ''tape7'' False] + 1) = 8"
  by code_simp

text \<open>
  Claim C4, amended: for every base directory that is, or can be made, a directory, every
  prefix and every allocation state, when the scan of the base directory runs to its end
  (over names not ending in a newline) the allocation returns the base directory joined
  with the prefix and the index \<open>idx = max(persistedNext, maxExisting + 1)\<close>, where
  \<open>persistedNext\<close> is the state entry (1 if there is none) and \<open>maxExisting\<close> is the
  greatest number over the immediate children that are directories and are named exactly
  by the prefix followed by decimal digits (0 if none), and it sets the state entry of the
  base directory to \<open>idx + 1\<close>. With the directories \<open>tape1\<close> and \<open>tape3\<close> and no state
  entry it returns \<open>tape4\<close> and stores 5 (the witness).
\<close>

theorem allocation_index:
  assumes "mkdir (resolve env (expanduser env base_dir)) fs = Inr fs'"
    and "ScanRaises \<notin> set (listing fs' (resolve env (expanduser env base_dir)))"
    and "\<forall>name. Child name True \<in> set (listing fs' (resolve env (expanduser env base_dir)))
           \<longrightarrow> \<not> ends_with_newline name"
  shows "(let key = resolve env (expanduser env base_dir);
              idx = max (start_idx_of c key) (max_existing_dirs prefix (listing fs' key) + 1)
          in find_next_subfolder env base_dir prefix (c, fs)
               = Inr (joinpath key (prefix @ str_int idx),
                      c\<lparr>next_index_by_dir := Some ((next_map_of c)(key \<mapsto> idx + 1))\<rparr>,
                      fs')
             \<and> candidate_and_next key (find_next_subfolder env base_dir prefix (c, fs))
               = Inr (joinpath key (prefix @ str_int idx), Some (idx + 1)))"
  using assms(1) scan_from_zero [OF assms(2,3), of prefix]
  by (simp add: find_next_subfolder_def bind_def Let_def alloc_idx_def candidate_and_next_def
      next_map_of_def)

theorem allocation_index_witness:
  "mkdir (resolve host_with_dvgrab (expanduser host_with_dvgrab ''/home/user/Videos''))
       (videos_fs [Child ''tape1'' True, Child ''tape3'' True])
     = Inr (videos_fs [Child ''tape1'' True, Child ''tape3'' True])
   \<and> candidate_and_next ''/home/user/Videos''
       (find_next_subfolder host_with_dvgrab ''/home/user/Videos'' ''tape''
          (\<lparr>next_index_by_dir = None\<rparr>, videos_fs [Child ''tape1'' True, Child ''tape3'' True]))
     = Inr (''/home/user/Videos/tape4'', Some 5)"
proof -
  let ?fs = "videos_fs [Child ''tape1'' True, Child ''tape3'' True]"
  let ?key = "resolve host_with_dvgrab (expanduser host_with_dvgrab ''/home/user/Videos'')"
  let ?c = "\<lparr>next_index_by_dir = None\<rparr>"
  have k: "?key = ''/home/user/Videos''"
    by (simp add: host_with_dvgrab_def)
  have h1: "mkdir ?key ?fs = Inr ?fs"
    by (simp add: k mkdir_def videos_fs_def)
  have l: "listing ?fs ''/home/user/Videos'' = [Child ''tape1'' True, Child ''tape3'' True]"
    by (simp add: listing_def videos_fs_def)
  have h2: "ScanRaises \<notin> set (listing ?fs ?key)"
    by (simp add: k l)
  have h3: "\<forall>name. Child name True \<in> set (listing ?fs ?key) \<longrightarrow> \<not> ends_with_newline name"
    by (auto simp: k l ends_with_newline_def)
  have i: "max (start_idx_of ?c ''/home/user/Videos'')
             (max_existing_dirs ''tape'' [Child ''tape1'' True, Child ''tape3'' True] + 1) = 4"
    by code_simp
  have j: "joinpath ''/home/user/Videos'' (''tape'' @ str_int 4) = ''/home/user/Videos/tape4''"
    by code_simp
  from allocation_index [OF h1 h2 h3, of ?c "''tape''", unfolded Let_def k l i j]
  have "candidate_and_next ''/home/user/Videos''
          (find_next_subfolder host_with_dvgrab ''/home/user/Videos'' ''tape'' (?c, ?fs))
        = Inr (''/home/user/Videos/tape4'', Some (4 + 1))"
    by (rule conjunct2)
  with h1 show ?thesis by simp
qed

text \<open>
  Claim C1 says that building the command for the clipboard leaves the allocation state
  as it was. \<open>copy_command\<close> calls \<open>find_next_subfolder\<close> with the live configuration,
  which stores the next index in it, although the comment in \<open>copy_command\<close> says not to
  increment on a dry run. In an empty base directory with no state entry: the entry is 2
  after the preview, and the capture started after it goes to \<open>tape2\<close>, where a capture
  started without the preview goes to \<open>tape1\<close>.
\<close>

theorem preview_changes_allocation_state:
  "next_map_of (cfg (idle_app default_ui (videos_fs []))) ''/home/user/Videos'' = None
   \<and> next_map_of (cfg (copy_command host_with_dvgrab (idle_app default_ui (videos_fs []))))
       ''/home/user/Videos'' = Some 2
   \<and> last_folder (snd (start_capture host_with_dvgrab (idle_app default_ui (videos_fs []))))
       = Some ''/home/user/Videos/tape1''
   \<and> last_folder (snd (start_capture host_with_dvgrab
        (copy_command host_with_dvgrab (idle_app default_ui (videos_fs [])))))
       = Some ''/home/user/Videos/tape2''"
  by code_simp

section \<open>Starting a capture\<close>

lemma gather_dvgrab_path:
  "gather_values u ''dvgrab_path'' = Some (PStr (configured_dvgrab u))"
  by (simp add: gather_values_def configured_dvgrab_def por_def)

lemma gather_output_dir:
  "gather_values u ''output_dir'' = Some (PStr (strip (output_dir_var u)))"
  by (simp add: gather_values_def)

lemma gather_prefix:
  "gather_values u ''subfolder_prefix'' = Some (PStr (configured_prefix u))"
  by (simp add: gather_values_def configured_prefix_def por_def)

lemma configured_dvgrab_nonempty: "configured_dvgrab u \<noteq> []"
  by (simp add: configured_dvgrab_def)

lemma which_dvgrab_missing:
  "p \<noteq> [] \<Longrightarrow> \<not> which_finds env p \<Longrightarrow> \<not> exists fs (Path p) \<Longrightarrow>
   which_dvgrab env fs (PStr p) = Inr p"
  by (auto simp: which_dvgrab_def which_finds_def split: option.splits)

text \<open>What a run that ends in a failed start has done before the failure.\<close>

lemma start_failed_run:
  assumes "start_capture env a = (StartFailed e, a')"
  obtains subdir cfg1 fs1 fs2 cmd where
    "find_next_subfolder env (expanduser env (Path (strip (output_dir_var (vars a)))))
        (configured_prefix (vars a)) (cfg a, disk a) = Inr (subdir, cfg1, fs1)"
    "mkdir subdir fs1 = Inr fs2"
    "popen env cmd = Some e"
    "cfg a' = cfg1" "disk a' = fs2" "config_file a' = Some cfg1"
    "last_folder a' = Some subdir" "proc a' = None"
  using assms
  by (auto simp: start_capture_def index_def bind_def gather_dvgrab_path gather_output_dir
      gather_prefix Path_of_def show_dialog_def log_line_def Let_def
      split: if_splits sum.splits option.splits prod.splits)

text \<open>No run of \<open>start_capture\<close> ends with the request to choose an output directory.\<close>

lemma output_dir_never_rejected: "fst (start_capture env a) \<noteq> NoOutputDir"
  by (auto simp: start_capture_def path_truthy_def Let_def
      split: sum.splits option.splits prod.splits)

text \<open>
  Claim C5 says that an empty output directory is rejected before anything is allocated,
  created or started. \<open>start_capture\<close> tests \<open>not base_dir\<close> on a \<open>Path\<close> object, which is
  never false, so the test lets every path through. With an empty output directory field
  and \<open>dvgrab\<close> on the search path the capture starts: the empty path is the working
  directory (here \<open>/home/user\<close>), \<open>tape1\<close> is allocated and created there, the counter is
  saved, and no message box is shown.
\<close>

theorem empty_output_dir_starts_capture:
  "fst (start_capture host_with_dvgrab (idle_app (default_ui\<lparr>output_dir_var := []\<rparr>) Map.empty))
     = Started
   \<and> last_folder (snd (start_capture host_with_dvgrab
        (idle_app (default_ui\<lparr>output_dir_var := []\<rparr>) Map.empty)))
     = Some ''/home/user/tape1''
   \<and> disk (snd (start_capture host_with_dvgrab
        (idle_app (default_ui\<lparr>output_dir_var := []\<rparr>) Map.empty))) ''/home/user/tape1''
     = Some (Directory [])
   \<and> next_map_of (cfg (snd (start_capture host_with_dvgrab
        (idle_app (default_ui\<lparr>output_dir_var := []\<rparr>) Map.empty)))) ''/home/user''
     = Some 2
   \<and> dialogs (snd (start_capture host_with_dvgrab
        (idle_app (default_ui\<lparr>output_dir_var := []\<rparr>) Map.empty)))
     = []"
  by code_simp

text \<open>
  Claim C6 says that, with the executable neither at its path nor on the search path, the
  start fails at the spawn, after the target directory was created. \<open>start_capture\<close>
  looks for the executable first and returns from there: the run ends with the
  \<open>dvgrab not found\<close> message, not with a failed start, and the target directory
  \<open>tape1\<close> has not been created.
\<close>

theorem missing_executable_counterexample:
  "fst (start_capture host_without_dvgrab (idle_app default_ui (videos_fs [])))
     = DvgrabNotFound
   \<and> fst (start_capture host_without_dvgrab (idle_app default_ui (videos_fs [])))
     \<noteq> StartFailed ''No such file or directory''
   \<and> disk (snd (start_capture host_without_dvgrab (idle_app default_ui (videos_fs []))))
        ''/home/user/Videos/tape1''
     = None"
  by code_simp

text \<open>
  Claim C6, amended: when no capture is running and the configured executable neither
  exists as a path nor is found on the search path, \<open>start_capture\<close> ends with the
  \<open>dvgrab not found\<close> message before it allocates anything: the state after the run is
  the state before it with that message box added, so no directory is created, the
  allocation state and the saved configuration are unchanged, and nothing is spawned.
\<close>

theorem missing_executable_stops_before_allocation:
  assumes "proc a = None"
    and "\<not> which_finds env (configured_dvgrab (vars a))"
    and "\<not> exists (disk a) (Path (configured_dvgrab (vars a)))"
  shows "start_capture env a
           = (DvgrabNotFound, show_dialog (NotFoundError (configured_dvgrab (vars a))) a)"
  using assms which_dvgrab_missing [OF configured_dvgrab_nonempty assms(2,3)]
  by (simp add: start_capture_def index_def bind_def gather_dvgrab_path)

theorem missing_executable_stops_before_allocation_witness:
  "proc (idle_app default_ui (videos_fs [])) = None
   \<and> \<not> which_finds host_without_dvgrab
          (configured_dvgrab (vars (idle_app default_ui (videos_fs []))))
   \<and> \<not> exists (disk (idle_app default_ui (videos_fs [])))
          (Path (configured_dvgrab (vars (idle_app default_ui (videos_fs [])))))
   \<and> fst (start_capture host_without_dvgrab (idle_app default_ui (videos_fs [])))
       = DvgrabNotFound
   \<and> disk (snd (start_capture host_without_dvgrab (idle_app default_ui (videos_fs []))))
       = disk (idle_app default_ui (videos_fs []))
   \<and> cfg (snd (start_capture host_without_dvgrab (idle_app default_ui (videos_fs []))))
       = cfg (idle_app default_ui (videos_fs []))"
proof -
  let ?a = "idle_app default_ui (videos_fs [])"
  have h1: "proc ?a = None" by (simp add: idle_app_def)
  have h2: "\<not> which_finds host_without_dvgrab (configured_dvgrab (vars ?a))" by code_simp
  have h3: "\<not> exists (disk ?a) (Path (configured_dvgrab (vars ?a)))" by code_simp
  show ?thesis
    using missing_executable_stops_before_allocation [OF h1 h2 h3] h1 h2 h3
    by (simp add: show_dialog_def)
qed

text \<open>
  Claim C10: a failed spawn has consumed an allocation index, and after it the counter of
  the base directory is advanced and saved and the empty target directory exists. The
  allocator is meant to return a directory that is not there yet (its comments: the scan
  of the actual folders is there to avoid collisions), but the scan compares the names of
  the immediate children only, and no name matches a prefix with a slash in it. With the
  prefix \<open>2024/tape\<close>, no state entry and a directory \<open>2024/tape1\<close> that holds a clip, the
  run allocates \<open>2024/tape1\<close> again, makes it with \<open>exist_ok=True\<close>, saves the counter 2,
  and the spawn fails: the target directory exists, and it is not empty.
\<close>

theorem failed_spawn_reuses_existing_directory:
  "disk (idle_app (default_ui\<lparr>subprefix_var := ''2024/tape''\<rparr>) archive_fs) ''/home/user/Videos/2024/tape1''
     = Some (Directory [Child ''clip-001.avi'' False])
   \<and> fst (start_capture host_spawn_fails (idle_app (default_ui\<lparr>subprefix_var := ''2024/tape''\<rparr>) archive_fs)) = StartFailed ''Exec format error''
   \<and> last_folder (snd (start_capture host_spawn_fails (idle_app (default_ui\<lparr>subprefix_var := ''2024/tape''\<rparr>) archive_fs)))
     = Some ''/home/user/Videos/2024/tape1''
   \<and> disk (snd (start_capture host_spawn_fails (idle_app (default_ui\<lparr>subprefix_var := ''2024/tape''\<rparr>) archive_fs))) ''/home/user/Videos/2024/tape1''
     = Some (Directory [Child ''clip-001.avi'' False])
   \<and> next_map_of (cfg (snd (start_capture host_spawn_fails (idle_app (default_ui\<lparr>subprefix_var := ''2024/tape''\<rparr>) archive_fs)))) ''/home/user/Videos''
     = Some 2"
  by code_simp

text \<open>
  The rest of what the claim says holds for every run of \<open>start_capture\<close> in which
  \<open>Popen\<close> raises: an index \<open>idx\<close>, not below the persisted next index, has been
  allocated for the base directory; the counter of the base directory is \<open>idx + 1\<close> in
  the configuration, and that configuration has been saved; the target directory, the
  base directory joined with the prefix and \<open>idx\<close>, is a directory, and an empty one if
  nothing was at its path before the run; no process is recorded as running; and every
  later allocation for that base directory from the configuration the run left, whatever
  the prefix and the contents of the directory, gets an index greater than \<open>idx\<close>.
\<close>

theorem failed_spawn_consumes_index:
  assumes "start_capture env a = (StartFailed e, a')"
  shows "\<exists>idx.
     (let key = base_key env (vars a);
          target = joinpath key (configured_prefix (vars a) @ str_int idx)
      in start_idx_of (cfg a) key \<le> idx
         \<and> next_map_of (cfg a') key = Some (idx + 1)
         \<and> config_file a' = Some (cfg a')
         \<and> last_folder a' = Some target
         \<and> (\<exists>items. disk a' target = Some (Directory items))
         \<and> (disk a target = None \<longrightarrow> disk a' target = Some (Directory []))
         \<and> proc a' = None
         \<and> (\<forall>prefix2 items2. idx < alloc_idx (cfg a') key prefix2 items2))"
proof -
  from assms obtain subdir cfg1 fs1 fs2 cmd where
    f: "find_next_subfolder env (expanduser env (Path (strip (output_dir_var (vars a)))))
        (configured_prefix (vars a)) (cfg a, disk a) = Inr (subdir, cfg1, fs1)"
    and m: "mkdir subdir fs1 = Inr fs2"
    and r: "cfg a' = cfg1" "disk a' = fs2" "config_file a' = Some cfg1"
      "last_folder a' = Some subdir" "proc a' = None"
    by (rule start_failed_run)
  define key where "key = base_key env (vars a)"
  define idx where "idx = alloc_idx (cfg a) key (configured_prefix (vars a)) (listing fs1 key)"
  from f have m1: "mkdir key (disk a) = Inr fs1"
    and sub: "subdir = joinpath key (configured_prefix (vars a) @ str_int idx)"
    and c1: "cfg1 = (cfg a)\<lparr>next_index_by_dir := Some ((next_map_of (cfg a))(key \<mapsto> idx + 1))\<rparr>"
    by (auto simp: find_next_subfolder_def bind_def Let_def key_def idx_def base_key_def
        split: sum.splits)
  have n: "next_map_of cfg1 key = Some (idx + 1)"
    by (simp add: c1 next_map_of_def)
  have ge: "start_idx_of (cfg a) key \<le> idx"
    by (simp add: idx_def alloc_idx_ge)
  have later: "idx < alloc_idx cfg1 key prefix2 items2" for prefix2 items2
    using n by (simp add: alloc_idx_def start_idx_of_def)
  from mkdir_result [OF m] have d: "\<exists>items. fs2 subdir = Some (Directory items)" by blast
  have fresh: "fs2 subdir = Some (Directory [])" if "disk a subdir = None"
  proof (cases "subdir = key")
    case True
    with that mkdir_result [OF m1] have "fs1 subdir = Some (Directory [])" by simp
    with m show ?thesis by (simp add: mkdir_def)
  next
    case False
    with that mkdir_result [OF m1] have "fs1 subdir = None" by simp
    with mkdir_result [OF m] show ?thesis by simp
  qed
  show ?thesis
    apply (rule exI [of _ idx])
    using n ge later d fresh r sub by (simp add: Let_def key_def)
qed

theorem failed_spawn_consumes_index_witness:
  "start_capture host_spawn_fails (idle_app default_ui (videos_fs [Child ''tape1'' True, Child ''tape3'' True]))
     = (StartFailed ''Exec format error'', snd (start_capture host_spawn_fails (idle_app default_ui (videos_fs [Child ''tape1'' True, Child ''tape3'' True]))))
   \<and> disk (idle_app default_ui (videos_fs [Child ''tape1'' True, Child ''tape3'' True])) ''/home/user/Videos/tape4'' = None
   \<and> last_folder (snd (start_capture host_spawn_fails (idle_app default_ui (videos_fs [Child ''tape1'' True, Child ''tape3'' True]))))
       = Some ''/home/user/Videos/tape4''
   \<and> disk (snd (start_capture host_spawn_fails (idle_app default_ui (videos_fs [Child ''tape1'' True, Child ''tape3'' True])))) ''/home/user/Videos/tape4''
       = Some (Directory [])
   \<and> (\<exists>idx. next_map_of (cfg (snd (start_capture host_spawn_fails (idle_app default_ui (videos_fs [Child ''tape1'' True, Child ''tape3'' True])))))
              (base_key host_spawn_fails default_ui) = Some (idx + 1)
          \<and> config_file (snd (start_capture host_spawn_fails (idle_app default_ui (videos_fs [Child ''tape1'' True, Child ''tape3'' True]))))
             = Some (cfg (snd (start_capture host_spawn_fails (idle_app default_ui (videos_fs [Child ''tape1'' True, Child ''tape3'' True])))))
          \<and> (\<forall>prefix2 items2.
                idx < alloc_idx (cfg (snd (start_capture host_spawn_fails (idle_app default_ui (videos_fs [Child ''tape1'' True, Child ''tape3'' True])))))
                        (base_key host_spawn_fails default_ui) prefix2 items2))"
proof -
  let ?a = "idle_app default_ui (videos_fs [Child ''tape1'' True, Child ''tape3'' True])"
  have o: "fst (start_capture host_spawn_fails ?a) = StartFailed ''Exec format error''"
    by code_simp
  have h: "start_capture host_spawn_fails ?a
             = (StartFailed ''Exec format error'', snd (start_capture host_spawn_fails ?a))"
    using o by (simp add: prod_eq_iff)
  have d: "disk ?a ''/home/user/Videos/tape4'' = None" by code_simp
  have l: "last_folder (snd (start_capture host_spawn_fails ?a))
             = Some ''/home/user/Videos/tape4''"
    by code_simp
  have t: "disk (snd (start_capture host_spawn_fails ?a)) ''/home/user/Videos/tape4''
             = Some (Directory [])"
    by code_simp
  have v: "vars ?a = default_ui" by (simp add: idle_app_def)
  from failed_spawn_consumes_index [OF h] obtain idx where
    "next_map_of (cfg (snd (start_capture host_spawn_fails ?a)))
        (base_key host_spawn_fails default_ui) = Some (idx + 1)"
    "config_file (snd (start_capture host_spawn_fails ?a))
        = Some (cfg (snd (start_capture host_spawn_fails ?a)))"
    "\<forall>prefix2 items2. idx < alloc_idx (cfg (snd (start_capture host_spawn_fails ?a)))
        (base_key host_spawn_fails default_ui) prefix2 items2"
    unfolding Let_def v by blast
  with h d l t show ?thesis by blast
qed

end
